theory Spec2Isabelle
  imports Main "HOL-Library.Sublist"
begin

section \<open>The activity log (src/ui/log\_panel.py)\<close>

text \<open>
  \<open>LogPanel\<close> keeps its messages in a Tk text widget. The widget is modelled by the
  characters the program has inserted, each with the tag it was inserted under; the
  newline that Tk always keeps at the very end of a text widget is not part of the list.
\<close>

type_synonym tagged_char = "char \<times> string"

type_synonym text_widget = "tagged_char list"

definition newline :: char where
  "newline = CHR 0x0A"

definition is_nl :: "tagged_char \<Rightarrow> bool" where
  "is_nl c = (fst c = newline)"

text \<open>\<open>text_widget.insert("end", chars, tag)\<close>\<close>

definition tk_insert_end :: "string \<Rightarrow> string \<Rightarrow> text_widget \<Rightarrow> text_widget" where
  "tk_insert_end chars tag w = w @ map (\<lambda>c. (c, tag)) chars"

text \<open>
  \<open>int(text_widget.index("end-1c").split(".")[0])\<close>: the line of the final newline,
  which is one more than the number of newlines inserted.
\<close>

definition tk_end_line :: "text_widget \<Rightarrow> nat" where
  "tk_end_line w = Suc (length (filter is_nl w))"

text \<open>Removing the first line with the newline that ends it, and the first \<open>n\<close> lines.\<close>

definition drop_line :: "text_widget \<Rightarrow> text_widget" where
  "drop_line w = drop 1 (dropWhile (\<lambda>c. \<not> is_nl c) w)"

fun drop_lines :: "nat \<Rightarrow> text_widget \<Rightarrow> text_widget" where
  "drop_lines 0 w = w"
| "drop_lines (Suc n) w = drop_lines n (drop_line w)"

text \<open>
  \<open>text_widget.delete("1.0", f"{k}.0")\<close>: everything before the start of line \<open>k\<close>
  goes; nothing is deleted when \<open>k\<close> is 1 (or less, which Tk reads as line 1).
\<close>

definition tk_delete_to_line :: "nat \<Rightarrow> text_widget \<Rightarrow> text_widget" where
  "tk_delete_to_line k w = drop_lines (k - 1) w"

text \<open>
  \<open>datetime.now()\<close> is an input of the model; \<open>strftime("%H:%M:%S")\<close> prints each
  field with two decimal digits.
\<close>

record clock =
  hour :: nat
  minute :: nat
  second :: nat

definition digit :: "nat \<Rightarrow> char" where
  "digit d = ''0123456789'' ! (d mod 10)"

definition two_digits :: "nat \<Rightarrow> string" where
  "two_digits n = [digit (n div 10), digit n]"

definition strftime_HMS :: "clock \<Rightarrow> string" where
  "strftime_HMS t = two_digits (hour t) @ '':'' @ two_digits (minute t) @ '':'' @ two_digits (second t)"

text \<open>\<open>LogPanel.log(message, level)\<close> at the time \<open>now\<close>.\<close>

definition log :: "clock \<Rightarrow> string \<Rightarrow> string \<Rightarrow> text_widget \<Rightarrow> text_widget" where
  "log now message level w =
     (let timestamp = strftime_HMS now;
          w1 = tk_insert_end (''['' @ timestamp @ ''] '') ''timestamp'' w;
          w2 = tk_insert_end (message @ [newline]) level w1;
          lines = tk_end_line w2
      in if lines > 1000 then tk_delete_to_line (lines - 1000) w2 else w2)"

text \<open>\<open>LogPanel.clear()\<close>\<close>

definition clear :: "text_widget \<Rightarrow> text_widget" where
  "clear w = []"

text \<open>
  A log record is one call of \<open>log\<close>; \<open>render\<close> is the text the call inserts, and
  \<open>log_all\<close> makes the calls of a list of records one after the other.
\<close>

record log_record =
  at :: clock
  level :: string
  message :: string

definition render :: "log_record \<Rightarrow> text_widget" where
  "render r = map (\<lambda>c. (c, ''timestamp'')) (''['' @ strftime_HMS (at r) @ ''] '')
              @ map (\<lambda>c. (c, level r)) (message r @ [newline])"

definition log_all :: "log_record list \<Rightarrow> text_widget \<Rightarrow> text_widget" where
  "log_all rs w = foldl (\<lambda>w r. log (at r) (message r) (level r) w) w rs"

text \<open>The number of newlines in the widget, and the part of a record before its newline.\<close>

definition newlines :: "text_widget \<Rightarrow> nat" where
  "newlines w = length (filter is_nl w)"

definition line_text :: "log_record \<Rightarrow> text_widget" where
  "line_text r = map (\<lambda>c. (c, ''timestamp'')) (''['' @ strftime_HMS (at r) @ ''] '')
                 @ map (\<lambda>c. (c, level r)) (message r)"

text \<open>Two records for the examples: one whose message has two lines, one with a single line.\<close>

definition midnight :: clock where
  "midnight = \<lparr>hour = 0, minute = 0, second = 0\<rparr>"

definition two_line_record :: log_record where
  "two_line_record = \<lparr>at = midnight, level = ''info'', message = ''a'' @ [newline] @ ''b''\<rparr>"

definition one_line_record :: log_record where
  "one_line_record = \<lparr>at = midnight, level = ''info'', message = ''x''\<rparr>"

section \<open>Python values\<close>

text \<open>
  An exception is kept with its description \<open>str(e)\<close>. \<open>PyException\<close> stands for an
  instance of a class derived from \<open>Exception\<close>, which is what \<open>except Exception\<close>
  catches; \<open>PyBaseException\<close> for one derived from \<open>BaseException\<close> only
  (\<open>SystemExit\<close>, \<open>KeyboardInterrupt\<close>, \<open>GeneratorExit\<close>).
\<close>

datatype exception = PyException string | PyBaseException string

datatype 'a outcome = Returns 'a | Raises exception

text \<open>
  \<open>xs[i]\<close>: the position that an index stands for. From \<open>-len(xs)\<close> to \<open>-1\<close> it
  counts back from the last item; outside \<open>-len(xs) .. len(xs) - 1\<close> reading and
  assigning raise \<open>IndexError\<close>.
\<close>

definition py_index :: "'a list \<Rightarrow> int \<Rightarrow> nat option" where
  "py_index xs i =
     (if 0 \<le> i \<and> i < int (length xs) then Some (nat i)
      else if i < 0 \<and> - int (length xs) \<le> i then Some (nat (int (length xs) + i))
      else None)"

definition py_getitem :: "'a list \<Rightarrow> int \<Rightarrow> exception + 'a" where
  "py_getitem xs i =
     (case py_index xs i of
        None \<Rightarrow> Inl (PyException ''list index out of range'')
      | Some k \<Rightarrow> Inr (xs ! k))"

definition py_setitem :: "'a list \<Rightarrow> int \<Rightarrow> 'a \<Rightarrow> exception + 'a list" where
  "py_setitem xs i v =
     (case py_index xs i of
        None \<Rightarrow> Inl (PyException ''list assignment index out of range'')
      | Some k \<Rightarrow> Inr (xs[k := v]))"

text \<open>
  \<open>str.strip()\<close>: the whitespace of Python among the code points below 256.
\<close>

definition is_space :: "char \<Rightarrow> bool" where
  "is_space c = (of_char c \<in> {9, 10, 11, 12, 13, 28, 29, 30, 31, 32, 133, 160 :: nat})"

definition strip :: "string \<Rightarrow> string" where
  "strip s = rev (dropWhile is_space (rev (dropWhile is_space s)))"

section \<open>The main window (src/ui/main\_window.py)\<close>

text \<open>
  Modelled from the spec: the class \<open>ModEntry\<close> of \<open>models.py\<close>, which is not among
  the sources. The spec gives an entry a stable identity, a display name, an enabled
  flag and the location of the mod on disk.
\<close>

record ModEntry =
  identity :: string
  display_name :: string
  enabled :: bool
  source_path :: string

text \<open>The arguments of one background job, as \<open>apply_mods\<close> hands them to the thread.\<close>

datatype job = Job string string "string list" string string

text \<open>
  What a method does to the outside is recorded as a list of effects, in the order of
  the calls: message boxes, \<open>self._log\<close>, the file system, the thread, and the calls of
  the collaborators \<open>ViolaIntegration\<close>, \<open>ConfigManager\<close> and \<open>ModsPanel\<close>.
\<close>

datatype effect =
    ShowInfo string string
  | ShowError string string
  | Log string string
  | MakeDirs string
  | Copy2 string string
  | ThreadStart job
  | MergeMods string string "string list" string
  | CopyMergedFiles string string
  | CleanupTemp string
  | ConfigSave string string string string "ModEntry list"
  | SetModEntries "ModEntry list"
  | SelectMod ModEntry
  | UpdateModDisplay ModEntry

text \<open>
  What the outside answers is an input of the model: the file system, the state of the
  collaborators and the results of their calls. The \<open>n\<close>-th call of
  \<open>config_manager.save\<close> within one method succeeds when \<open>config_save n\<close> holds.
\<close>

record env =
  path_isdir :: "string \<Rightarrow> bool"
  path_exists :: "string \<Rightarrow> bool"
  path_join :: "string \<Rightarrow> string list \<Rightarrow> string"
  path_dirname :: "string \<Rightarrow> string"
  path_abspath :: "string \<Rightarrow> string"
  makedirs :: "string \<Rightarrow> unit outcome"
  copy2 :: "string \<Rightarrow> string \<Rightarrow> unit outcome"
  viola_is_running :: bool
  merge_mods :: "bool outcome"
  copy_merged_files :: "bool outcome"
  cleanup_temp :: "unit outcome"
  config_save :: "nat \<Rightarrow> bool"
  config_path :: string

text \<open>The attributes of \<open>MainWindow\<close> that the methods below read or assign.\<close>

record MainWindow =
  game_path :: string
  cfgbin_path :: string
  violacli_path :: string
  tmp_dir :: string
  mod_entries :: "ModEntry list"

text \<open>
  A method yields its effects and either the exception that leaves it or its result.
\<close>

type_synonym 'a io = "effect list \<times> (exception + 'a)"

definition io_return :: "'a \<Rightarrow> 'a io" where
  "io_return x = ([], Inr x)"

definition io_bind :: "'a io \<Rightarrow> ('a \<Rightarrow> 'b io) \<Rightarrow> 'b io" where
  "io_bind m f =
     (case m of
        (t, Inl x) \<Rightarrow> (t, Inl x)
      | (t, Inr v) \<Rightarrow> (case f v of (t', r) \<Rightarrow> (t @ t', r)))"

definition io_emit :: "effect \<Rightarrow> unit io" where
  "io_emit eff = ([eff], Inr ())"

definition io_call :: "effect \<Rightarrow> 'a outcome \<Rightarrow> 'a io" where
  "io_call eff out = ([eff], case out of Returns v \<Rightarrow> Inr v | Raises x \<Rightarrow> Inl x)"

definition io_lift :: "exception + 'a \<Rightarrow> 'a io" where
  "io_lift r = ([], r)"

text \<open>\<open>try: m  except Exception as e: h(str(e))\<close>\<close>

definition try_except_Exception :: "'a io \<Rightarrow> (string \<Rightarrow> 'a io) \<Rightarrow> 'a io" where
  "try_except_Exception m h =
     (case m of
        (t, Inl (PyException d)) \<Rightarrow> (case h d of (t', r) \<Rightarrow> (t @ t', r))
      | _ \<Rightarrow> m)"

text \<open>
  \<open>MainWindow._log(text, level)\<close> posts \<open>log_panel.log(text, level)\<close> to the event loop
  with \<open>self.after(0, append)\<close>.
\<close>

definition log_msg :: "string \<Rightarrow> string \<Rightarrow> unit io" where
  "log_msg text lvl = io_emit (Log text lvl)"

text \<open>\<open>MainWindow._save_config()\<close>, as the \<open>n\<close>-th save of the running method.\<close>

definition save_config :: "env \<Rightarrow> nat \<Rightarrow> MainWindow \<Rightarrow> unit io" where
  "save_config e n self =
     io_bind (io_call (ConfigSave (game_path self) (cfgbin_path self) (violacli_path self)
                         (tmp_dir self) (mod_entries self))
                      (Returns (config_save e n)))
       (\<lambda>success.
          if success then log_msg (''Configuration saved to '' @ config_path e) ''success''
          else io_bind (io_emit (ShowError ''Error'' ''Could not save configuration.''))
                 (\<lambda>_. log_msg ''Could not save configuration.'' ''error''))"

subsection \<open>Reordering\<close>

text \<open>
  \<open>MainWindow.move_up()\<close>; \<open>idx\<close> is what \<open>mods_panel.get_selected_index()\<close>
  answers. The right-hand side of the swap is read first, then the two items are
  assigned from left to right.
\<close>

definition move_up :: "int option \<Rightarrow> env \<Rightarrow> MainWindow \<Rightarrow> MainWindow io" where
  "move_up idx e self =
     (case idx of
        None \<Rightarrow> io_return self
      | Some i \<Rightarrow>
          if i \<le> 0 then io_return self
          else
            io_bind (io_lift (py_getitem (mod_entries self) i)) (\<lambda>a.
            io_bind (io_lift (py_getitem (mod_entries self) (i - 1))) (\<lambda>b.
            io_bind (io_lift (py_setitem (mod_entries self) (i - 1) a)) (\<lambda>es1.
            io_bind (io_lift (py_setitem es1 i b)) (\<lambda>es2.
            io_bind (io_emit (SetModEntries es2)) (\<lambda>_.
            io_bind (io_lift (py_getitem es2 (i - 1))) (\<lambda>sel.
            io_bind (io_emit (SelectMod sel)) (\<lambda>_.
            io_bind (save_config e 0 (self\<lparr>mod_entries := es2\<rparr>)) (\<lambda>_.
            io_return (self\<lparr>mod_entries := es2\<rparr>))))))))))"

text \<open>\<open>MainWindow.move_down()\<close>\<close>

definition move_down :: "int option \<Rightarrow> env \<Rightarrow> MainWindow \<Rightarrow> MainWindow io" where
  "move_down idx e self =
     (case idx of
        None \<Rightarrow> io_return self
      | Some i \<Rightarrow>
          if i \<ge> int (length (mod_entries self)) - 1 then io_return self
          else
            io_bind (io_lift (py_getitem (mod_entries self) i)) (\<lambda>a.
            io_bind (io_lift (py_getitem (mod_entries self) (i + 1))) (\<lambda>b.
            io_bind (io_lift (py_setitem (mod_entries self) (i + 1) a)) (\<lambda>es1.
            io_bind (io_lift (py_setitem es1 i b)) (\<lambda>es2.
            io_bind (io_emit (SetModEntries es2)) (\<lambda>_.
            io_bind (io_lift (py_getitem es2 (i + 1))) (\<lambda>sel.
            io_bind (io_emit (SelectMod sel)) (\<lambda>_.
            io_bind (save_config e 0 (self\<lparr>mod_entries := es2\<rparr>)) (\<lambda>_.
            io_return (self\<lparr>mod_entries := es2\<rparr>))))))))))"

text \<open>The entries a method leaves, when it returns.\<close>

definition entries_of :: "MainWindow io \<Rightarrow> exception + ModEntry list" where
  "entries_of r = (case snd r of Inl x \<Rightarrow> Inl x | Inr self \<Rightarrow> Inr (mod_entries self))"

subsection \<open>Enabling and disabling\<close>

text \<open>
  Writing the \<open>enabled\<close> variable of an entry runs the trace that \<open>scan_mods\<close>
  registered for it (\<open>_make_mod_enabled_trace\<close>): the panel redraws the entry, with any
  exception of that swallowed, and the configuration is saved.
\<close>

definition on_change :: "env \<Rightarrow> nat \<Rightarrow> ModEntry \<Rightarrow> MainWindow \<Rightarrow> unit io" where
  "on_change e n me self =
     io_bind (io_emit (UpdateModDisplay me)) (\<lambda>_. save_config e n self)"

text \<open>
  \<open>for me in self.mod_entries: me.enabled.set(v)\<close>, with the entries already visited
  in \<open>visited\<close> and those still to visit in the third argument.
\<close>

fun set_enabled_loop :: "env \<Rightarrow> bool \<Rightarrow> ModEntry list \<Rightarrow> ModEntry list \<Rightarrow> MainWindow \<Rightarrow> MainWindow io" where
  "set_enabled_loop e v visited [] self = io_return self"
| "set_enabled_loop e v visited (me # todo) self =
     (let me' = me\<lparr>enabled := v\<rparr>;
          self' = self\<lparr>mod_entries := visited @ me' # todo\<rparr>
      in io_bind (on_change e (length visited) me' self')
           (\<lambda>_. set_enabled_loop e v (visited @ [me']) todo self'))"

text \<open>\<open>MainWindow.enable_all()\<close> and \<open>MainWindow.disable_all()\<close>\<close>

definition enable_all :: "env \<Rightarrow> MainWindow \<Rightarrow> MainWindow io" where
  "enable_all e self =
     io_bind (set_enabled_loop e True [] (mod_entries self) self) (\<lambda>self'.
     io_bind (save_config e (length (mod_entries self)) self') (\<lambda>_.
     io_return self'))"

definition disable_all :: "env \<Rightarrow> MainWindow \<Rightarrow> MainWindow io" where
  "disable_all e self =
     io_bind (set_enabled_loop e False [] (mod_entries self) self) (\<lambda>self'.
     io_bind (save_config e (length (mod_entries self)) self') (\<lambda>_.
     io_return self'))"

text \<open>
  Modelled from the spec: \<open>ModManager.get_enabled_mods\<close> of \<open>mod_manager.py\<close>, which is
  not among the sources. The spec's \<open>enabledSubsetInOrder\<close> returns the source paths
  of the entries with \<open>enabled = true\<close>, in the order of the list.
\<close>

fun get_enabled_mods :: "ModEntry list \<Rightarrow> string list" where
  "get_enabled_mods [] = []"
| "get_enabled_mods (me # es) =
     (if enabled me then source_path me # get_enabled_mods es else get_enabled_mods es)"

subsection \<open>Applying\<close>

text \<open>\<open>MainWindow.apply_mods()\<close>\<close>

definition apply_mods :: "env \<Rightarrow> MainWindow \<Rightarrow> unit io" where
  "apply_mods e self =
     (if viola_is_running e then io_emit (ShowInfo ''Info'' ''A process is already running.'')
      else
        let game = strip (game_path self);
            cfgbin = strip (cfgbin_path self);
            violacli = strip (violacli_path self)
        in
        if game = [] \<or> \<not> path_isdir e game then
          io_emit (ShowError ''Error'' ''Invalid game path.'')
        else if cfgbin = [] \<or> \<not> path_exists e cfgbin then
          io_emit (ShowError ''Error'' ''Invalid cpk_list.cfg.bin path.'')
        else if violacli = [] \<or> \<not> path_exists e violacli then
          io_emit (ShowError ''Error'' ''violacli.exe not found. Please configure its path.'')
        else
          let enabled_mods = get_enabled_mods (mod_entries self) in
          if enabled_mods = [] then
            let target_cpk = path_join e game [''data'', ''cpk_list.cfg.bin''] in
            try_except_Exception
              (io_bind (io_call (MakeDirs (path_dirname e target_cpk))
                                (makedirs e (path_dirname e target_cpk))) (\<lambda>_.
               io_bind (io_call (Copy2 cfgbin target_cpk) (copy2 e cfgbin target_cpk)) (\<lambda>_.
               log_msg ''CHANGES APPLIED!! No mods selected.'' ''success'')))
              (\<lambda>d. log_msg (''Error applying changes: '' @ d) ''error'')
          else
            let tmp_root = path_abspath e (tmp_dir self) in
            io_bind (io_call (MakeDirs tmp_root) (makedirs e tmp_root)) (\<lambda>_.
            io_emit (ThreadStart (Job violacli cfgbin enabled_mods tmp_root game))))"

text \<open>
  The three checks that \<open>apply_mods\<close> makes on the configured paths: each is
  stripped, must not be empty, and must be an existing directory (the game) or an
  existing file (the base \<open>cpk_list.cfg.bin\<close> and the merge tool).
\<close>

definition paths_valid :: "env \<Rightarrow> MainWindow \<Rightarrow> bool" where
  "paths_valid e self =
     (strip (game_path self) \<noteq> [] \<and> path_isdir e (strip (game_path self))
      \<and> strip (cfgbin_path self) \<noteq> [] \<and> path_exists e (strip (cfgbin_path self))
      \<and> strip (violacli_path self) \<noteq> [] \<and> path_exists e (strip (violacli_path self)))"

text \<open>\<open>MainWindow._run_merge_and_copy(violacli, cfgbin, mod_paths, tmp_root, game_path)\<close>\<close>

definition run_merge_and_copy :: "env \<Rightarrow> string \<Rightarrow> string \<Rightarrow> string list \<Rightarrow> string \<Rightarrow> string \<Rightarrow> unit io" where
  "run_merge_and_copy e violacli cfgbin mod_paths tmp_root game =
     try_except_Exception
       (io_bind (io_call (MergeMods violacli cfgbin mod_paths tmp_root) (merge_mods e)) (\<lambda>success.
          if \<not> success then log_msg ''violacli returned error; aborting copy.'' ''error''
          else
            let tmp_data = path_join e tmp_root [''data''];
                dest_data = path_join e game [''data'']
            in
            io_bind (io_call (CopyMergedFiles tmp_data dest_data) (copy_merged_files e)) (\<lambda>copied.
              if copied then
                io_bind (io_call (CleanupTemp tmp_data) (cleanup_temp e)) (\<lambda>_.
                log_msg ''MODS APPLIED!!'' ''success'')
              else log_msg ''Failed to copy merged files.'' ''error'')))
       (\<lambda>d. log_msg (''Unexpected error: '' @ d) ''error'')"

text \<open>The thread runs its target with the arguments it was given.\<close>

fun run_job :: "env \<Rightarrow> job \<Rightarrow> unit io" where
  "run_job e (Job violacli cfgbin mod_paths tmp_root game) =
     run_merge_and_copy e violacli cfgbin mod_paths tmp_root game"

subsection \<open>Reading a list of effects\<close>

fun is_viola_call :: "effect \<Rightarrow> bool" where
  "is_viola_call (MergeMods a b c d) = True"
| "is_viola_call (CopyMergedFiles a b) = True"
| "is_viola_call (CleanupTemp a) = True"
| "is_viola_call _ = False"

fun is_merge :: "effect \<Rightarrow> bool" where
  "is_merge (MergeMods a b c d) = True"
| "is_merge _ = False"

fun is_copy :: "effect \<Rightarrow> bool" where
  "is_copy (CopyMergedFiles a b) = True"
| "is_copy _ = False"

fun is_cleanup :: "effect \<Rightarrow> bool" where
  "is_cleanup (CleanupTemp a) = True"
| "is_cleanup _ = False"

fun is_thread_start :: "effect \<Rightarrow> bool" where
  "is_thread_start (ThreadStart j) = True"
| "is_thread_start _ = False"

fun started :: "effect list \<Rightarrow> job list" where
  "started [] = []"
| "started (ThreadStart j # t) = j # started t"
| "started (_ # t) = started t"

subsection \<open>The window and its worker threads\<close>

text \<open>
  Modelled from the spec: \<open>ViolaIntegration.is_running\<close> of \<open>viola_integration.py\<close>,
  which is not among the sources. The spec calls it the guard "is a job already
  running?": it holds while a started job has not finished.
\<close>

definition is_running :: "job list \<Rightarrow> bool" where
  "is_running ws = (ws \<noteq> [])"

text \<open>
  The window together with the jobs in flight. An apply request runs \<open>apply_mods\<close> and
  the threads it starts join the jobs in flight; a job leaves when it finishes; any
  other action of the user changes the attributes of the window.
\<close>

record system =
  window :: MainWindow
  workers :: "job list"

datatype event = Apply env | WorkerExit | Edit MainWindow

fun step :: "system \<Rightarrow> event \<Rightarrow> system" where
  "step s (Apply e) =
     s\<lparr>workers := workers s
          @ started (fst (apply_mods (e\<lparr>viola_is_running := is_running (workers s)\<rparr>) (window s)))\<rparr>"
| "step s WorkerExit = s\<lparr>workers := drop 1 (workers s)\<rparr>"
| "step s (Edit w) = s\<lparr>window := w\<rparr>"

definition run :: "system \<Rightarrow> event list \<Rightarrow> system" where
  "run s evs = foldl step s evs"

section \<open>A concrete window and environment\<close>

text \<open>
  The list of the spec's scenario: A enabled, B disabled, C enabled; an environment in
  which every path exists and every call succeeds.
\<close>

definition mod_a :: ModEntry where
  "mod_a = \<lparr>identity = ''A'', display_name = ''A'', enabled = True, source_path = ''mods/A''\<rparr>"

definition mod_b :: ModEntry where
  "mod_b = \<lparr>identity = ''B'', display_name = ''B'', enabled = False, source_path = ''mods/B''\<rparr>"

definition mod_c :: ModEntry where
  "mod_c = \<lparr>identity = ''C'', display_name = ''C'', enabled = True, source_path = ''mods/C''\<rparr>"

definition demo_window :: MainWindow where
  "demo_window = \<lparr>game_path = ''game'', cfgbin_path = ''cpk_list.cfg.bin'',
                   violacli_path = ''violacli.exe'', tmp_dir = ''tmp'',
                   mod_entries = [mod_a, mod_b, mod_c]\<rparr>"

definition demo_env :: env where
  "demo_env = \<lparr>path_isdir = (\<lambda>p. True), path_exists = (\<lambda>p. True),
                path_join = (\<lambda>a ps. foldl (\<lambda>p q. p @ ''/'' @ q) a ps),
                path_dirname = (\<lambda>p. rev (drop 1 (dropWhile (\<lambda>c. c \<noteq> CHR ''/'') (rev p)))),
                path_abspath = (\<lambda>p. ''/'' @ p),
                makedirs = (\<lambda>p. Returns ()), copy2 = (\<lambda>p q. Returns ()),
                viola_is_running = False,
                merge_mods = Returns True, copy_merged_files = Returns True,
                cleanup_temp = Returns (),
                config_save = (\<lambda>n. True), config_path = ''config.json''\<rparr>"

section \<open>Properties of the activity log\<close>

lemma newlines_simps [simp]:
  "newlines [] = 0"
  "newlines (c # w) = (if is_nl c then Suc (newlines w) else newlines w)"
  "newlines (a @ b) = newlines a + newlines b"
  by (simp_all add: newlines_def)

lemma drop_line_Nil [simp]: "drop_line [] = []"
  by (simp add: drop_line_def)

lemma drop_line_Cons [simp]: "drop_line (c # w) = (if is_nl c then w else drop_line w)"
  by (simp add: drop_line_def)

lemma drop_lines_Nil [simp]: "drop_lines n [] = []"
  by (induction n) auto

lemma newlines_drop_line: "newlines (drop_line w) = newlines w - 1"
  by (induction w) auto

lemma newlines_drop_lines: "newlines (drop_lines n w) = newlines w - n"
  by (induction n arbitrary: w) (auto simp: newlines_drop_line)

lemma drop_line_append: "0 < newlines a \<Longrightarrow> drop_line (a @ b) = drop_line a @ b"
  by (induction a) (auto split: if_splits)

lemma drop_lines_append: "n \<le> newlines a \<Longrightarrow> drop_lines n (a @ b) = drop_lines n a @ b"
proof (induction n arbitrary: a)
  case 0
  then show ?case by simp
next
  case (Suc n)
  then have pos: "0 < newlines a" by simp
  have "n \<le> newlines (drop_line a)"
    using Suc.prems by (simp add: newlines_drop_line)
  from Suc.IH[OF this] show ?case
    by (simp add: drop_line_append[OF pos])
qed

lemma drop_lines_drop_lines: "drop_lines m (drop_lines n w) = drop_lines (n + m) w"
  by (induction n arbitrary: w) auto

text \<open>One call of \<open>log\<close> appends the record and keeps the last 1000 lines.\<close>

lemma log_lines:
  "log (at r) (message r) (level r) w
   = drop_lines (newlines (w @ render r) - 1000) (w @ render r)"
  by (simp add: log_def Let_def tk_insert_end_def tk_end_line_def tk_delete_to_line_def
      render_def newlines_def)

lemma log_all_Cons: "log_all (r # rs) w = log_all rs (log (at r) (message r) (level r) w)"
  by (simp add: log_all_def)

text \<open>So does any sequence of calls, on a widget that holds at most 1000 lines.\<close>

lemma log_all_lines:
  "newlines w \<le> 1000 \<Longrightarrow>
   log_all rs w = drop_lines (newlines (w @ concat (map render rs)) - 1000)
                    (w @ concat (map render rs))"
proof (induction rs arbitrary: w)
  case Nil
  then show ?case by (simp add: log_all_def)
next
  case (Cons r rs)
  define a where "a = w @ render r"
  define c where "c = concat (map render rs)"
  define d where "d = newlines a - 1000"
  have d_le: "d \<le> newlines a" by (simp add: d_def)
  have "log_all (r # rs) w = log_all rs (drop_lines d a)"
    by (simp add: log_all_Cons log_lines a_def d_def)
  also have "\<dots> = drop_lines (newlines (drop_lines d a @ c) - 1000) (drop_lines d a @ c)"
    unfolding c_def by (rule Cons.IH) (simp add: newlines_drop_lines d_def)
  also have "drop_lines d a @ c = drop_lines d (a @ c)"
    by (simp add: drop_lines_append[OF d_le])
  also have "drop_lines (newlines (drop_lines d (a @ c)) - 1000) (drop_lines d (a @ c))
             = drop_lines (d + (newlines (drop_lines d (a @ c)) - 1000)) (a @ c)"
    by (simp add: drop_lines_drop_lines)
  also have "d + (newlines (drop_lines d (a @ c)) - 1000) = newlines (a @ c) - 1000"
    by (simp add: newlines_drop_lines d_def)
  finally show ?case by (simp add: a_def c_def)
qed

lemma digit_not_newline: "digit d \<noteq> newline"
proof -
  have "d mod 10 < length ''0123456789''" by simp
  then have "''0123456789'' ! (d mod 10) \<in> set ''0123456789''" by (rule nth_mem)
  then show ?thesis unfolding digit_def newline_def by auto
qed

lemma strftime_no_newline: "newline \<notin> set (strftime_HMS t)"
  using digit_not_newline[of "hour t div 10"] digit_not_newline[of "hour t"]
    digit_not_newline[of "minute t div 10"] digit_not_newline[of "minute t"]
    digit_not_newline[of "second t div 10"] digit_not_newline[of "second t"]
  by (auto simp: strftime_HMS_def two_digits_def newline_def)

lemma render_line_text: "render r = line_text r @ [(newline, level r)]"
  by (simp add: render_def line_text_def)

lemma line_text_no_nl:
  "newline \<notin> set (message r) \<Longrightarrow> \<forall>c\<in>set (line_text r). \<not> is_nl c"
  using strftime_no_newline[of "at r"]
  by (auto simp: line_text_def is_nl_def newline_def)

lemma newlines_none: "\<forall>c\<in>set p. \<not> is_nl c \<Longrightarrow> newlines p = 0"
  by (induction p) auto

lemma drop_line_first: "\<forall>c\<in>set p. \<not> is_nl c \<Longrightarrow> is_nl c \<Longrightarrow> drop_line (p @ c # x) = x"
  by (induction p) auto

lemma newlines_render: "newline \<notin> set (message r) \<Longrightarrow> newlines (render r) = 1"
  by (simp add: render_line_text newlines_none[OF line_text_no_nl] is_nl_def)

lemma drop_line_render: "newline \<notin> set (message r) \<Longrightarrow> drop_line (render r @ x) = x"
  by (simp add: render_line_text drop_line_first[OF line_text_no_nl] is_nl_def)

lemma newlines_concat_render:
  "\<forall>r\<in>set rs. newline \<notin> set (message r) \<Longrightarrow> newlines (concat (map render rs)) = length rs"
  by (induction rs) (auto simp: newlines_render)

lemma drop_lines_concat_render:
  "\<forall>r\<in>set rs. newline \<notin> set (message r) \<Longrightarrow>
   drop_lines n (concat (map render rs)) = concat (map render (drop n rs))"
proof (induction rs arbitrary: n)
  case Nil
  then show ?case by simp
next
  case (Cons r rs)
  show ?case
  proof (cases n)
    case 0
    then show ?thesis by simp
  next
    case (Suc m)
    with Cons show ?thesis by (simp add: drop_line_render)
  qed
qed

lemma newlines_concat_replicate: "newlines (concat (replicate n a)) = n * newlines a"
  by (induction n) auto

lemma newlines_two_line_record: "newlines (render two_line_record) = 2"
  by (simp add: render_def two_line_record_def midnight_def is_nl_def newline_def
      strftime_HMS_def two_digits_def digit_def)

lemma newlines_one_line_record: "newlines (render one_line_record) = 1"
  by (rule newlines_render) (simp add: one_line_record_def newline_def)

lemma drop_first_line_two_line_record:
  "drop_line (render two_line_record) = [(CHR ''b'', ''info''), (newline, ''info'')]"
  by (simp add: render_def two_line_record_def midnight_def is_nl_def newline_def
      strftime_HMS_def two_digits_def digit_def)

text \<open>
  A record of two lines followed by 999 records of one line: the widget has 1001 lines,
  the first goes, and what stays begins in the middle of the first record.
\<close>

lemma log_all_two_line_first:
  "log_all (two_line_record # replicate 999 one_line_record) []
   = drop_line (render two_line_record) @ concat (replicate 999 (render one_line_record))"
proof -
  have "log_all (two_line_record # replicate 999 one_line_record) []
        = drop_lines (Suc 0) (render two_line_record @ concat (replicate 999 (render one_line_record)))"
    using log_all_lines[of "[]" "two_line_record # replicate 999 one_line_record"]
    by (simp add: newlines_two_line_record newlines_one_line_record newlines_concat_replicate)
  also have "\<dots> = drop_lines (Suc 0) (render two_line_record)
                   @ concat (replicate 999 (render one_line_record))"
    by (rule drop_lines_append) (simp add: newlines_two_line_record)
  finally show ?thesis by simp
qed

text \<open>
  C1, as stated: after any sequence of appends the log holds the most recently appended
  records, at most 1000 of them, whole and in order. It fails when a message has a
  newline in it: after the 1000 appends below nothing should have been evicted, yet the
  first line of the first record is gone and the log begins with the rest of that record.
\<close>

theorem log_record_fifo_counterexample:
  "length (two_line_record # replicate 999 one_line_record) \<le> 1000
   \<and> hd (log_all (two_line_record # replicate 999 one_line_record) []) = (CHR ''b'', ''info'')
   \<and> log_all (two_line_record # replicate 999 one_line_record) []
     \<noteq> concat (map render (drop (length (two_line_record # replicate 999 one_line_record) - 1000)
                              (two_line_record # replicate 999 one_line_record)))"
proof -
  have h: "hd (log_all (two_line_record # replicate 999 one_line_record) []) = (CHR ''b'', ''info'')"
    by (simp add: log_all_two_line_first drop_first_line_two_line_record)
  have "hd (concat (map render (two_line_record # replicate 999 one_line_record)))
        = (CHR ''['', ''timestamp'')"
    by (simp add: render_def)
  with h have "log_all (two_line_record # replicate 999 one_line_record) []
        \<noteq> concat (map render (two_line_record # replicate 999 one_line_record))"
    by auto
  with h show ?thesis by simp
qed

text \<open>
  C1, amended: for every sequence of appends whose messages contain no newline,
  starting from the empty log, the log holds exactly the last 1000 records appended (all
  of them while there are at most 1000), whole and in the order of their appends; so it
  never holds more than 1000 records and the records evicted are the oldest ones.
\<close>

theorem log_keeps_most_recent_records:
  assumes "\<forall>r\<in>set rs. newline \<notin> set (message r)"
  shows "log_all rs [] = concat (map render (drop (length rs - 1000) rs))
         \<and> length (drop (length rs - 1000) rs) \<le> 1000"
proof -
  have "log_all rs [] = drop_lines (newlines (concat (map render rs)) - 1000)
                          (concat (map render rs))"
    using log_all_lines[of "[]" rs] by simp
  then show ?thesis
    using assms by (simp add: newlines_concat_render drop_lines_concat_render)
qed

theorem log_keeps_most_recent_records_witness:
  "newline \<notin> set (message one_line_record)
   \<and> log_all (replicate 1001 one_line_record) [] = concat (replicate 1000 (render one_line_record))"
proof -
  have h: "\<forall>r\<in>set (replicate 1001 one_line_record). newline \<notin> set (message r)"
    by (simp add: one_line_record_def newline_def)
  show ?thesis
    using h log_keeps_most_recent_records[OF h] by (simp add: map_replicate_const)
qed

section \<open>Properties of the main window\<close>

subsection \<open>Evaluating the effects\<close>

lemma io_bind_simps [simp]:
  "io_bind (t, Inl x) f = (t, Inl x)"
  "io_bind (t, Inr v) f = (t @ fst (f v), snd (f v))"
  by (simp_all add: io_bind_def split: prod.splits)

lemma io_return_simp [simp]: "io_return x = ([], Inr x)"
  by (simp add: io_return_def)

lemma io_emit_simp [simp]: "io_emit eff = ([eff], Inr ())"
  by (simp add: io_emit_def)

lemma io_lift_simp [simp]: "io_lift r = ([], r)"
  by (simp add: io_lift_def)

lemma io_call_simps [simp]:
  "io_call eff (Returns v) = ([eff], Inr v)"
  "io_call eff (Raises x) = ([eff], Inl x)"
  by (simp_all add: io_call_def)

lemma log_msg_simp [simp]: "log_msg text lvl = ([Log text lvl], Inr ())"
  by (simp add: log_msg_def)

lemma try_except_simps [simp]:
  "try_except_Exception (t, Inr v) h = (t, Inr v)"
  "try_except_Exception (t, Inl (PyBaseException d)) h = (t, Inl (PyBaseException d))"
  "try_except_Exception (t, Inl (PyException d)) h = (t @ fst (h d), snd (h d))"
  by (simp_all add: try_except_Exception_def split: prod.splits)

lemma save_config_eq:
  "save_config e n self =
    (if config_save e n
     then ([ConfigSave (game_path self) (cfgbin_path self) (violacli_path self) (tmp_dir self) (mod_entries self),
            Log (''Configuration saved to '' @ config_path e) ''success''], Inr ())
     else ([ConfigSave (game_path self) (cfgbin_path self) (violacli_path self) (tmp_dir self) (mod_entries self),
            ShowError ''Error'' ''Could not save configuration.'',
            Log ''Could not save configuration.'' ''error''], Inr ()))"
  by (simp add: save_config_def)

lemma snd_save_config [simp]: "snd (save_config e n self) = Inr ()"
  by (simp add: save_config_eq)

lemma io_bind_save_config [simp]:
  "io_bind (save_config e n self) f = (fst (save_config e n self) @ fst (f ()), snd (f ()))"
  by (simp add: save_config_eq)

subsection \<open>Reordering the list\<close>

lemma py_index_in_range: "0 \<le> i \<Longrightarrow> i < int (length xs) \<Longrightarrow> py_index xs i = Some (nat i)"
  by (simp add: py_index_def)

lemma py_getitem_in_range: "0 \<le> i \<Longrightarrow> i < int (length xs) \<Longrightarrow> py_getitem xs i = Inr (xs ! nat i)"
  by (simp add: py_getitem_def py_index_in_range)

lemma py_setitem_in_range: "0 \<le> i \<Longrightarrow> i < int (length xs) \<Longrightarrow> py_setitem xs i v = Inr (xs[nat i := v])"
  by (simp add: py_setitem_def py_index_in_range)

lemma py_getitem_past_end: "int (length xs) \<le> i \<Longrightarrow> py_getitem xs i = Inl (PyException ''list index out of range'')"
  by (simp add: py_getitem_def py_index_def)

lemma move_up_in_range:
  assumes "0 < i" "i < int (length (mod_entries self))"
  shows "move_up (Some i) e self =
     ([SetModEntries ((mod_entries self)[nat i - 1 := mod_entries self ! nat i, nat i := mod_entries self ! (nat i - 1)]),
       SelectMod (mod_entries self ! nat i)] @ fst (save_config e 0 (self\<lparr>mod_entries := (mod_entries self)[nat i - 1 := mod_entries self ! nat i, nat i := mod_entries self ! (nat i - 1)]\<rparr>)),
      Inr (self\<lparr>mod_entries := (mod_entries self)[nat i - 1 := mod_entries self ! nat i, nat i := mod_entries self ! (nat i - 1)]\<rparr>))"
  using assms
  by (simp add: move_up_def py_getitem_in_range py_setitem_in_range nat_diff_distrib)

lemma move_down_in_range:
  assumes "0 \<le> i" "i < int (length (mod_entries self)) - 1"
  shows "move_down (Some i) e self =
     ([SetModEntries ((mod_entries self)[nat i + 1 := mod_entries self ! nat i, nat i := mod_entries self ! (nat i + 1)]),
       SelectMod (mod_entries self ! nat i)] @ fst (save_config e 0 (self\<lparr>mod_entries := (mod_entries self)[nat i + 1 := mod_entries self ! nat i, nat i := mod_entries self ! (nat i + 1)]\<rparr>)),
      Inr (self\<lparr>mod_entries := (mod_entries self)[nat i + 1 := mod_entries self ! nat i, nat i := mod_entries self ! (nat i + 1)]\<rparr>))"
  using assms
  by (simp add: move_down_def py_getitem_in_range py_setitem_in_range nat_add_distrib)


lemma swap_back_up:
  "0 < k \<Longrightarrow> k < length xs \<Longrightarrow>
   (xs[k - 1 := xs ! k, k := xs ! (k - 1)])
     [k := (xs[k - 1 := xs ! k, k := xs ! (k - 1)]) ! (k - 1),
      k - 1 := (xs[k - 1 := xs ! k, k := xs ! (k - 1)]) ! k] = xs"
  by (rule nth_equalityI) (auto simp: nth_list_update)

lemma swap_back_down:
  "Suc k < length xs \<Longrightarrow>
   (xs[Suc k := xs ! k, k := xs ! Suc k])
     [k := (xs[Suc k := xs ! k, k := xs ! Suc k]) ! Suc k,
      Suc k := (xs[Suc k := xs ! k, k := xs ! Suc k]) ! k] = xs"
  by (rule nth_equalityI) (auto simp: nth_list_update)

lemma move_down_then_up:
  assumes "0 \<le> i" "i < int (length (mod_entries self)) - 1"
  shows "\<exists>s1. snd (move_down (Some i) e self) = Inr s1
           \<and> mod_entries s1 ! nat (i + 1) = mod_entries self ! nat i
           \<and> snd (move_up (Some (i + 1)) e' s1) = Inr self"
proof -
  define s1 where "s1 = self\<lparr>mod_entries := (mod_entries self)[nat i + 1 := mod_entries self ! nat i, nat i := mod_entries self ! (nat i + 1)]\<rparr>"
  have len: "Suc (nat i) < length (mod_entries self)" using assms by linarith
  have 1: "snd (move_down (Some i) e self) = Inr s1"
    using assms by (simp add: move_down_in_range s1_def)
  have 2: "mod_entries s1 ! nat (i + 1) = mod_entries self ! nat i"
    using assms len by (simp add: s1_def nat_add_distrib)
  have l1: "length (mod_entries s1) = length (mod_entries self)" by (simp add: s1_def)
  have "snd (move_up (Some (i + 1)) e' s1)
        = Inr (s1\<lparr>mod_entries := (mod_entries s1)[nat (i + 1) - 1 := mod_entries s1 ! nat (i + 1), nat (i + 1) := mod_entries s1 ! (nat (i + 1) - 1)]\<rparr>)"
    using assms l1 by (subst move_up_in_range) simp_all
  also have "\<dots> = Inr self"
    using assms len swap_back_down[OF len] by (simp add: s1_def nat_add_distrib)
  finally show ?thesis using 1 2 by blast
qed

lemma move_up_then_down:
  assumes "0 < j" "j < int (length (mod_entries self))"
  shows "\<exists>s1. snd (move_up (Some j) e self) = Inr s1
           \<and> mod_entries s1 ! nat (j - 1) = mod_entries self ! nat j
           \<and> snd (move_down (Some (j - 1)) e' s1) = Inr self"
proof -
  define s1 where "s1 = self\<lparr>mod_entries := (mod_entries self)[nat j - 1 := mod_entries self ! nat j, nat j := mod_entries self ! (nat j - 1)]\<rparr>"
  have len: "nat j < length (mod_entries self)" "0 < nat j" using assms by linarith+
  have 1: "snd (move_up (Some j) e self) = Inr s1"
    using assms by (simp add: move_up_in_range s1_def)
  have 2: "mod_entries s1 ! nat (j - 1) = mod_entries self ! nat j"
    using assms len by (simp add: s1_def nat_diff_distrib)
  have l1: "length (mod_entries s1) = length (mod_entries self)" by (simp add: s1_def)
  have "snd (move_down (Some (j - 1)) e' s1)
        = Inr (s1\<lparr>mod_entries := (mod_entries s1)[nat (j - 1) + 1 := mod_entries s1 ! nat (j - 1), nat (j - 1) := mod_entries s1 ! (nat (j - 1) + 1)]\<rparr>)"
    using assms l1 by (subst move_down_in_range) simp_all
  also have "\<dots> = Inr self"
    using assms len swap_back_up[OF len(2) len(1)] by (simp add: s1_def nat_diff_distrib)
  finally show ?thesis using 1 2 by blast
qed



text \<open>
  C5: for an index that is not at a boundary, \<open>move_down\<close> followed by \<open>move_up\<close>
  at the position the moved entry went to (the one the panel selects), and \<open>move_up\<close>
  followed by \<open>move_down\<close> likewise, give back the window as it was, so the original
  order of the entries exactly.
\<close>

theorem move_restores_order:
  "(0 \<le> i \<and> i < int (length (mod_entries self)) - 1 \<longrightarrow>
      (\<exists>s1. snd (move_down (Some i) e self) = Inr s1
            \<and> mod_entries s1 ! nat (i + 1) = mod_entries self ! nat i
            \<and> snd (move_up (Some (i + 1)) e' s1) = Inr self))
   \<and> (0 < j \<and> j < int (length (mod_entries self)) \<longrightarrow>
      (\<exists>s1. snd (move_up (Some j) e self) = Inr s1
            \<and> mod_entries s1 ! nat (j - 1) = mod_entries self ! nat j
            \<and> snd (move_down (Some (j - 1)) e' s1) = Inr self))"
  using move_down_then_up[of i self e e'] move_up_then_down[of j self e e'] by blast

theorem move_restores_order_witness:
  "snd (move_down (Some 0) demo_env demo_window)
     = Inr (demo_window\<lparr>mod_entries := [mod_b, mod_a, mod_c]\<rparr>)
   \<and> snd (move_up (Some 1) demo_env (demo_window\<lparr>mod_entries := [mod_b, mod_a, mod_c]\<rparr>))
     = Inr demo_window
   \<and> snd (move_up (Some 1) demo_env demo_window)
     = Inr (demo_window\<lparr>mod_entries := [mod_b, mod_a, mod_c]\<rparr>)
   \<and> snd (move_down (Some 0) demo_env (demo_window\<lparr>mod_entries := [mod_b, mod_a, mod_c]\<rparr>))
     = Inr demo_window"
proof -
  have d: "snd (move_down (Some 0) demo_env demo_window)
           = Inr (demo_window\<lparr>mod_entries := [mod_b, mod_a, mod_c]\<rparr>)"
    by (simp add: move_down_in_range demo_window_def)
  have u: "snd (move_up (Some 1) demo_env demo_window)
           = Inr (demo_window\<lparr>mod_entries := [mod_b, mod_a, mod_c]\<rparr>)"
    by (simp add: move_up_in_range demo_window_def)
  show ?thesis
    using move_restores_order[of 0 demo_window demo_env demo_env 1] d u
    by (simp add: demo_window_def)
qed

text \<open>
  C6, as stated: an index out of bounds in either direction is a no-op that never
  raises. It fails on a list of three entries: \<open>move_up\<close> at index 3 raises
  \<open>IndexError\<close>, and \<open>move_down\<close> at index -1 exchanges the last and the first
  entry.
\<close>

theorem move_out_of_range_counterexample:
  "int (length (mod_entries demo_window)) \<le> 3
   \<and> move_up (Some 3) demo_env demo_window = ([], Inl (PyException ''list index out of range''))
   \<and> entries_of (move_down (Some (- 1)) demo_env demo_window) = Inr [mod_c, mod_b, mod_a]"
  by (simp add: move_up_def move_down_def entries_of_def py_getitem_def py_setitem_def
      py_index_def demo_window_def)

text \<open>
  C6, amended: \<open>move_up\<close> is a no-op that does not raise when nothing is selected or
  the index is 0 or negative, and \<open>move_down\<close> when nothing is selected or the index
  is the last one or beyond; at every in-range index that is not at that boundary the
  entry is exchanged with its neighbour.
\<close>

theorem move_guarded_or_swaps:
  "move_up None e self = ([], Inr self)
   \<and> (i \<le> 0 \<longrightarrow> move_up (Some i) e self = ([], Inr self))
   \<and> move_down None e self = ([], Inr self)
   \<and> (int (length (mod_entries self)) - 1 \<le> j \<longrightarrow> move_down (Some j) e self = ([], Inr self))
   \<and> (0 < k \<and> k < int (length (mod_entries self)) \<longrightarrow>
        entries_of (move_up (Some k) e self)
        = Inr ((mod_entries self)[nat k - 1 := mod_entries self ! nat k,
                                  nat k := mod_entries self ! (nat k - 1)]))
   \<and> (0 \<le> m \<and> m < int (length (mod_entries self)) - 1 \<longrightarrow>
        entries_of (move_down (Some m) e self)
        = Inr ((mod_entries self)[nat m + 1 := mod_entries self ! nat m,
                                  nat m := mod_entries self ! (nat m + 1)]))"
  by (simp add: move_up_in_range move_down_in_range entries_of_def)
     (simp add: move_up_def move_down_def)

theorem move_guarded_or_swaps_witness:
  "move_up (Some 0) demo_env demo_window = ([], Inr demo_window)
   \<and> move_down (Some 2) demo_env demo_window = ([], Inr demo_window)
   \<and> entries_of (move_up (Some 1) demo_env demo_window) = Inr [mod_b, mod_a, mod_c]
   \<and> entries_of (move_down (Some 1) demo_env demo_window) = Inr [mod_a, mod_c, mod_b]"
  using move_guarded_or_swaps[of demo_env demo_window 0 2 1 1]
  by (simp add: demo_window_def)

subsection \<open>Enabling, disabling and the enabled subset\<close>

lemma on_change_eq:
  "on_change e n me self = (UpdateModDisplay me # fst (save_config e n self), Inr ())"
  by (simp add: on_change_def)

lemma snd_set_enabled_loop:
  "mod_entries self = visited @ todo \<Longrightarrow>
   snd (set_enabled_loop e v visited todo self)
   = Inr (self\<lparr>mod_entries := visited @ map (\<lambda>m. m\<lparr>enabled := v\<rparr>) todo\<rparr>)"
proof (induction todo arbitrary: visited self)
  case Nil
  then show ?case by simp
next
  case (Cons me todo)
  define self' where "self' = self\<lparr>mod_entries := visited @ me\<lparr>enabled := v\<rparr> # todo\<rparr>"
  have "mod_entries self' = (visited @ [me\<lparr>enabled := v\<rparr>]) @ todo"
    by (simp add: self'_def)
  from Cons.IH[OF this] show ?case
    by (simp add: Let_def on_change_eq self'_def)
qed

lemma get_enabled_mods_filter: "get_enabled_mods es = map source_path (filter enabled es)"
  by (induction es) auto

lemma snd_enable_all:
  "snd (enable_all e self) = Inr (self\<lparr>mod_entries := map (\<lambda>m. m\<lparr>enabled := True\<rparr>) (mod_entries self)\<rparr>)"
  using snd_set_enabled_loop[of self "[]" "mod_entries self" e True]
  by (cases "set_enabled_loop e True [] (mod_entries self) self") (simp add: enable_all_def)

lemma snd_disable_all:
  "snd (disable_all e self) = Inr (self\<lparr>mod_entries := map (\<lambda>m. m\<lparr>enabled := False\<rparr>) (mod_entries self)\<rparr>)"
  using snd_set_enabled_loop[of self "[]" "mod_entries self" e False]
  by (cases "set_enabled_loop e False [] (mod_entries self) self") (simp add: disable_all_def)

text \<open>
  C7: after \<open>enable_all\<close> the enabled subset is the source paths of all entries in the
  order of the list, after \<open>disable_all\<close> it is empty, and for any list it is the
  source paths of the enabled entries in the order they have in the list, so it holds
  no disabled entry.
\<close>

theorem enabled_subset_in_order:
  "(\<exists>s1. snd (enable_all e self) = Inr s1
          \<and> get_enabled_mods (mod_entries s1) = map source_path (mod_entries self))
   \<and> (\<exists>s2. snd (disable_all e self) = Inr s2 \<and> get_enabled_mods (mod_entries s2) = [])
   \<and> get_enabled_mods es = map source_path (filter enabled es)"
  by (simp add: snd_enable_all snd_disable_all get_enabled_mods_filter o_def)

theorem enabled_subset_in_order_witness:
  "snd (enable_all demo_env demo_window)
     = Inr (demo_window\<lparr>mod_entries := [mod_a, mod_b\<lparr>enabled := True\<rparr>, mod_c]\<rparr>)
   \<and> get_enabled_mods [mod_a, mod_b\<lparr>enabled := True\<rparr>, mod_c] = [''mods/A'', ''mods/B'', ''mods/C'']
   \<and> get_enabled_mods (mod_entries demo_window) = [''mods/A'', ''mods/C'']"
  using enabled_subset_in_order[of demo_env demo_window "mod_entries demo_window"]
  by (simp add: snd_enable_all demo_window_def mod_a_def mod_b_def mod_c_def)

subsection \<open>Saving the configuration\<close>

text \<open>
  C9: when the config store reports a failure, \<open>_save_config\<close> shows the error box and
  then logs an error-level record; when it reports success, the only thing after the
  save is a success-level log record.
\<close>

theorem save_failure_alert_and_log:
  "(\<not> config_save e n \<longrightarrow>
      save_config e n self
      = ([ConfigSave (game_path self) (cfgbin_path self) (violacli_path self) (tmp_dir self)
            (mod_entries self),
          ShowError ''Error'' ''Could not save configuration.'',
          Log ''Could not save configuration.'' ''error''], Inr ()))
   \<and> (config_save e n \<longrightarrow>
      save_config e n self
      = ([ConfigSave (game_path self) (cfgbin_path self) (violacli_path self) (tmp_dir self)
            (mod_entries self),
          Log (''Configuration saved to '' @ config_path e) ''success''], Inr ()))"
  by (simp add: save_config_eq)

theorem save_failure_alert_and_log_witness:
  "save_config (demo_env\<lparr>config_save := (\<lambda>n. False)\<rparr>) 0 demo_window
     = ([ConfigSave ''game'' ''cpk_list.cfg.bin'' ''violacli.exe'' ''tmp'' [mod_a, mod_b, mod_c],
         ShowError ''Error'' ''Could not save configuration.'',
         Log ''Could not save configuration.'' ''error''], Inr ())
   \<and> save_config demo_env 0 demo_window
     = ([ConfigSave ''game'' ''cpk_list.cfg.bin'' ''violacli.exe'' ''tmp'' [mod_a, mod_b, mod_c],
         Log ''Configuration saved to config.json'' ''success''], Inr ())"
  using save_failure_alert_and_log[of "demo_env\<lparr>config_save := (\<lambda>n. False)\<rparr>" 0 demo_window]
    save_failure_alert_and_log[of demo_env 0 demo_window]
  by (simp add: demo_env_def demo_window_def)

subsection \<open>The background job\<close>

lemma run_merge_raises_Exception:
  "merge_mods e = Raises (PyException d) \<Longrightarrow>
   run_merge_and_copy e v c ms t g
   = ([MergeMods v c ms t, Log (''Unexpected error: '' @ d) ''error''], Inr ())"
  by (simp add: run_merge_and_copy_def)

lemma run_merge_raises_Base:
  "merge_mods e = Raises (PyBaseException d) \<Longrightarrow>
   run_merge_and_copy e v c ms t g = ([MergeMods v c ms t], Inl (PyBaseException d))"
  by (simp add: run_merge_and_copy_def)

lemma run_merge_fails:
  "merge_mods e = Returns False \<Longrightarrow>
   run_merge_and_copy e v c ms t g
   = ([MergeMods v c ms t, Log ''violacli returned error; aborting copy.'' ''error''], Inr ())"
  by (simp add: run_merge_and_copy_def)

lemma run_copy_raises_Exception:
  "merge_mods e = Returns True \<Longrightarrow> copy_merged_files e = Raises (PyException d) \<Longrightarrow>
   run_merge_and_copy e v c ms t g
   = ([MergeMods v c ms t, CopyMergedFiles (path_join e t [''data'']) (path_join e g [''data'']),
       Log (''Unexpected error: '' @ d) ''error''], Inr ())"
  by (simp add: run_merge_and_copy_def Let_def)

lemma run_copy_raises_Base:
  "merge_mods e = Returns True \<Longrightarrow> copy_merged_files e = Raises (PyBaseException d) \<Longrightarrow>
   run_merge_and_copy e v c ms t g
   = ([MergeMods v c ms t, CopyMergedFiles (path_join e t [''data'']) (path_join e g [''data''])],
      Inl (PyBaseException d))"
  by (simp add: run_merge_and_copy_def Let_def)

lemma run_copy_fails:
  "merge_mods e = Returns True \<Longrightarrow> copy_merged_files e = Returns False \<Longrightarrow>
   run_merge_and_copy e v c ms t g
   = ([MergeMods v c ms t, CopyMergedFiles (path_join e t [''data'']) (path_join e g [''data'']),
       Log ''Failed to copy merged files.'' ''error''], Inr ())"
  by (simp add: run_merge_and_copy_def Let_def)

lemma run_cleanup_raises_Exception:
  "merge_mods e = Returns True \<Longrightarrow> copy_merged_files e = Returns True \<Longrightarrow>
   cleanup_temp e = Raises (PyException d) \<Longrightarrow>
   run_merge_and_copy e v c ms t g
   = ([MergeMods v c ms t, CopyMergedFiles (path_join e t [''data'']) (path_join e g [''data'']),
       CleanupTemp (path_join e t [''data'']),
       Log (''Unexpected error: '' @ d) ''error''], Inr ())"
  by (simp add: run_merge_and_copy_def Let_def)

lemma run_cleanup_raises_Base:
  "merge_mods e = Returns True \<Longrightarrow> copy_merged_files e = Returns True \<Longrightarrow>
   cleanup_temp e = Raises (PyBaseException d) \<Longrightarrow>
   run_merge_and_copy e v c ms t g
   = ([MergeMods v c ms t, CopyMergedFiles (path_join e t [''data'']) (path_join e g [''data'']),
       CleanupTemp (path_join e t [''data''])], Inl (PyBaseException d))"
  by (simp add: run_merge_and_copy_def Let_def)

lemma run_all_succeed:
  "merge_mods e = Returns True \<Longrightarrow> copy_merged_files e = Returns True \<Longrightarrow>
   cleanup_temp e = Returns u \<Longrightarrow>
   run_merge_and_copy e v c ms t g
   = ([MergeMods v c ms t, CopyMergedFiles (path_join e t [''data'']) (path_join e g [''data'']),
       CleanupTemp (path_join e t [''data'']), Log ''MODS APPLIED!!'' ''success''], Inr ())"
  by (simp add: run_merge_and_copy_def Let_def)

lemmas run_cases = run_merge_raises_Exception run_merge_raises_Base run_merge_fails
  run_copy_raises_Exception run_copy_raises_Base run_copy_fails
  run_cleanup_raises_Exception run_cleanup_raises_Base run_all_succeed

lemma viola_calls_of_job:
  "filter is_viola_call (fst (run_merge_and_copy e v c ms t g))
   = MergeMods v c ms t
     # (if merge_mods e = Returns True
        then CopyMergedFiles (path_join e t [''data'']) (path_join e g [''data''])
             # (if copy_merged_files e = Returns True then [CleanupTemp (path_join e t [''data''])] else [])
        else [])"
proof (cases "merge_mods e")
  case (Raises x)
  then show ?thesis by (cases x) (simp_all add: run_cases)
next
  case (Returns ok)
  note m = this
  show ?thesis
  proof (cases ok)
    case False
    with m show ?thesis by (simp add: run_cases)
  next
    case True
    note ok = this
    show ?thesis
    proof (cases "copy_merged_files e")
      case (Raises x)
      with m ok show ?thesis by (cases x) (simp_all add: run_cases)
    next
      case (Returns copied)
      note c = this
      show ?thesis
      proof (cases copied)
        case False
        with m ok c show ?thesis by (simp add: run_cases)
      next
        case True
        note copied = this
        show ?thesis
        proof (cases "cleanup_temp e")
          case (Raises x)
          with m ok c copied show ?thesis by (cases x) (simp_all add: run_cases)
        next
          case (Returns u)
          with m ok c copied show ?thesis by (simp add: run_cases)
        qed
      qed
    qed
  qed
qed


lemma filter_merge_viola: "filter is_merge (filter is_viola_call xs) = filter is_merge xs"
proof -
  have "\<And>x. (is_viola_call x \<and> is_merge x) = is_merge x" by (case_tac x) simp_all
  then show ?thesis by simp
qed

lemma filter_copy_viola: "filter is_copy (filter is_viola_call xs) = filter is_copy xs"
proof -
  have "\<And>x. (is_viola_call x \<and> is_copy x) = is_copy x" by (case_tac x) simp_all
  then show ?thesis by simp
qed

lemma filter_cleanup_viola: "filter is_cleanup (filter is_viola_call xs) = filter is_cleanup xs"
proof -
  have "\<And>x. (is_viola_call x \<and> is_cleanup x) = is_cleanup x" by (case_tac x) simp_all
  then show ?thesis by simp
qed

text \<open>
  C4: the calls a job makes to the merge tool's wrapper are an initial part of merge,
  copy, cleanup, in that order; merge is called once; copy is called once when merge
  returned success and not at all otherwise; cleanup is called once when merge and copy
  both returned success and not at all otherwise.
\<close>

theorem merge_copy_cleanup_sequence:
  "prefix (filter is_viola_call (fst (run_job e (Job v c ms t g))))
     [MergeMods v c ms t,
      CopyMergedFiles (path_join e t [''data'']) (path_join e g [''data'']),
      CleanupTemp (path_join e t [''data''])]
   \<and> length (filter is_merge (fst (run_job e (Job v c ms t g)))) = 1
   \<and> length (filter is_copy (fst (run_job e (Job v c ms t g))))
       = (if merge_mods e = Returns True then 1 else 0)
   \<and> length (filter is_cleanup (fst (run_job e (Job v c ms t g))))
       = (if merge_mods e = Returns True \<and> copy_merged_files e = Returns True then 1 else 0)"
proof -
  let ?tr = "fst (run_merge_and_copy e v c ms t g)"
  note calls = viola_calls_of_job[of e v c ms t g]
  have 1: "prefix (filter is_viola_call ?tr)
     [MergeMods v c ms t,
      CopyMergedFiles (path_join e t [''data'']) (path_join e g [''data'']),
      CleanupTemp (path_join e t [''data''])]"
    by (simp add: calls)
  have 2: "length (filter is_merge ?tr) = 1"
  proof -
    have "filter is_merge ?tr = filter is_merge (filter is_viola_call ?tr)"
      by (simp only: filter_merge_viola)
    then show ?thesis by (simp only: calls) simp
  qed
  have 3: "length (filter is_copy ?tr) = (if merge_mods e = Returns True then 1 else 0)"
  proof -
    have "filter is_copy ?tr = filter is_copy (filter is_viola_call ?tr)"
      by (simp only: filter_copy_viola)
    then show ?thesis by (simp only: calls) simp
  qed
  have 4: "length (filter is_cleanup ?tr)
           = (if merge_mods e = Returns True \<and> copy_merged_files e = Returns True then 1 else 0)"
  proof -
    have "filter is_cleanup ?tr = filter is_cleanup (filter is_viola_call ?tr)"
      by (simp only: filter_cleanup_viola)
    then show ?thesis by (simp only: calls) simp
  qed
  from 1 2 3 4 show ?thesis by simp
qed

theorem merge_copy_cleanup_sequence_witness:
  "fst (run_job demo_env (Job ''violacli.exe'' ''cpk_list.cfg.bin'' [''mods/A''] ''/tmp'' ''game''))
   = [MergeMods ''violacli.exe'' ''cpk_list.cfg.bin'' [''mods/A''] ''/tmp'',
      CopyMergedFiles ''/tmp/data'' ''game/data'', CleanupTemp ''/tmp/data'',
      Log ''MODS APPLIED!!'' ''success'']
   \<and> length (filter is_copy
        (fst (run_job (demo_env\<lparr>merge_mods := Returns False\<rparr>)
               (Job ''violacli.exe'' ''cpk_list.cfg.bin'' [''mods/A''] ''/tmp'' ''game'')))) = 0
   \<and> length (filter is_cleanup
        (fst (run_job (demo_env\<lparr>copy_merged_files := Returns False\<rparr>)
               (Job ''violacli.exe'' ''cpk_list.cfg.bin'' [''mods/A''] ''/tmp'' ''game'')))) = 0"
  using merge_copy_cleanup_sequence[of "demo_env\<lparr>merge_mods := Returns False\<rparr>"
      "''violacli.exe''" "''cpk_list.cfg.bin''" "[''mods/A'']" "''/tmp''" "''game''"]
    merge_copy_cleanup_sequence[of "demo_env\<lparr>copy_merged_files := Returns False\<rparr>"
      "''violacli.exe''" "''cpk_list.cfg.bin''" "[''mods/A'']" "''/tmp''" "''game''"]
  by (simp add: run_merge_and_copy_def Let_def demo_env_def)

text \<open>
  C8, as stated: every exception of any kind raised in the job is caught and logged. It
  fails for an exception that is not derived from \<open>Exception\<close>: \<open>except Exception\<close>
  lets it through, it leaves the job and nothing is logged.
\<close>

theorem job_BaseException_counterexample:
  "run_merge_and_copy (demo_env\<lparr>merge_mods := Raises (PyBaseException ''interrupted'')\<rparr>)
     ''violacli.exe'' ''cpk_list.cfg.bin'' [''mods/A''] ''/tmp'' ''game''
   = ([MergeMods ''violacli.exe'' ''cpk_list.cfg.bin'' [''mods/A''] ''/tmp''],
      Inl (PyBaseException ''interrupted''))"
  by (simp add: run_merge_raises_Base)

text \<open>
  C8, amended: every exception derived from \<open>Exception\<close> that merge, copy or cleanup
  raises is caught in the job and turned into an error-level log record that carries
  its description, after which the job returns; no such exception ever leaves the job.
\<close>

theorem job_catches_Exception:
  "(merge_mods e = Raises (PyException d) \<longrightarrow>
      run_merge_and_copy e v c ms t g
      = ([MergeMods v c ms t, Log (''Unexpected error: '' @ d) ''error''], Inr ()))
   \<and> (merge_mods e = Returns True \<and> copy_merged_files e = Raises (PyException d) \<longrightarrow>
      run_merge_and_copy e v c ms t g
      = ([MergeMods v c ms t,
          CopyMergedFiles (path_join e t [''data'']) (path_join e g [''data'']),
          Log (''Unexpected error: '' @ d) ''error''], Inr ()))
   \<and> (merge_mods e = Returns True \<and> copy_merged_files e = Returns True
       \<and> cleanup_temp e = Raises (PyException d) \<longrightarrow>
      run_merge_and_copy e v c ms t g
      = ([MergeMods v c ms t,
          CopyMergedFiles (path_join e t [''data'']) (path_join e g [''data'']),
          CleanupTemp (path_join e t [''data'']),
          Log (''Unexpected error: '' @ d) ''error''], Inr ()))
   \<and> (\<forall>x. snd (run_merge_and_copy e v c ms t g) \<noteq> Inl (PyException x))"
proof -
  have "snd (run_merge_and_copy e v c ms t g) \<noteq> Inl (PyException x)" for x
  proof (cases "merge_mods e")
    case (Raises y)
    then show ?thesis by (cases y) (simp_all add: run_cases)
  next
    case (Returns ok)
    note m = this
    show ?thesis
    proof (cases "copy_merged_files e")
      case (Raises y)
      with m show ?thesis by (cases y; cases ok) (simp_all add: run_cases)
    next
      case (Returns copied)
      note c = this
      show ?thesis
      proof (cases "cleanup_temp e")
        case (Raises y)
        with m c show ?thesis by (cases y; cases ok; cases copied) (simp_all add: run_cases)
      next
        case (Returns u)
        with m c show ?thesis by (cases ok; cases copied) (simp_all add: run_cases)
      qed
    qed
  qed
  then show ?thesis
    by (simp add: run_cases)
qed

theorem job_catches_Exception_witness:
  "run_merge_and_copy (demo_env\<lparr>merge_mods := Raises (PyException ''boom'')\<rparr>)
     ''violacli.exe'' ''cpk_list.cfg.bin'' [''mods/A''] ''/tmp'' ''game''
   = ([MergeMods ''violacli.exe'' ''cpk_list.cfg.bin'' [''mods/A''] ''/tmp'',
       Log ''Unexpected error: boom'' ''error''], Inr ())
   \<and> run_merge_and_copy (demo_env\<lparr>copy_merged_files := Raises (PyException ''disk full'')\<rparr>)
     ''violacli.exe'' ''cpk_list.cfg.bin'' [''mods/A''] ''/tmp'' ''game''
   = ([MergeMods ''violacli.exe'' ''cpk_list.cfg.bin'' [''mods/A''] ''/tmp'',
       CopyMergedFiles ''/tmp/data'' ''game/data'',
       Log ''Unexpected error: disk full'' ''error''], Inr ())
   \<and> run_merge_and_copy (demo_env\<lparr>cleanup_temp := Raises (PyException ''busy'')\<rparr>)
     ''violacli.exe'' ''cpk_list.cfg.bin'' [''mods/A''] ''/tmp'' ''game''
   = ([MergeMods ''violacli.exe'' ''cpk_list.cfg.bin'' [''mods/A''] ''/tmp'',
       CopyMergedFiles ''/tmp/data'' ''game/data'', CleanupTemp ''/tmp/data'',
       Log ''Unexpected error: busy'' ''error''], Inr ())"
  using job_catches_Exception[of "demo_env\<lparr>merge_mods := Raises (PyException ''boom'')\<rparr>" "''boom''"
      "''violacli.exe''" "''cpk_list.cfg.bin''" "[''mods/A'']" "''/tmp''" "''game''"]
    job_catches_Exception[of "demo_env\<lparr>copy_merged_files := Raises (PyException ''disk full'')\<rparr>" "''disk full''"
      "''violacli.exe''" "''cpk_list.cfg.bin''" "[''mods/A'']" "''/tmp''" "''game''"]
    job_catches_Exception[of "demo_env\<lparr>cleanup_temp := Raises (PyException ''busy'')\<rparr>" "''busy''"
      "''violacli.exe''" "''cpk_list.cfg.bin''" "[''mods/A'']" "''/tmp''" "''game''"]
  by (simp add: demo_env_def)

subsection \<open>Apply requests\<close>

lemma apply_mods_running:
  "viola_is_running e \<Longrightarrow>
   apply_mods e self = ([ShowInfo ''Info'' ''A process is already running.''], Inr ())"
  by (simp add: apply_mods_def)

lemma apply_mods_invalid:
  "\<not> viola_is_running e \<Longrightarrow> \<not> paths_valid e self \<Longrightarrow>
   apply_mods e self
   = ([ShowError ''Error''
        (if strip (game_path self) = [] \<or> \<not> path_isdir e (strip (game_path self))
         then ''Invalid game path.''
         else if strip (cfgbin_path self) = [] \<or> \<not> path_exists e (strip (cfgbin_path self))
         then ''Invalid cpk_list.cfg.bin path.''
         else ''violacli.exe not found. Please configure its path.'')], Inr ())"
  by (auto simp add: apply_mods_def paths_valid_def Let_def)

lemma apply_mods_no_mods:
  "\<not> viola_is_running e \<Longrightarrow> paths_valid e self \<Longrightarrow>
   get_enabled_mods (mod_entries self) = [] \<Longrightarrow>
   apply_mods e self
   = try_except_Exception
       (io_bind (io_call (MakeDirs (path_dirname e (path_join e (strip (game_path self)) [''data'', ''cpk_list.cfg.bin''])))
                   (makedirs e (path_dirname e (path_join e (strip (game_path self)) [''data'', ''cpk_list.cfg.bin''])))) (\<lambda>_.
        io_bind (io_call (Copy2 (strip (cfgbin_path self)) (path_join e (strip (game_path self)) [''data'', ''cpk_list.cfg.bin'']))
                   (copy2 e (strip (cfgbin_path self)) (path_join e (strip (game_path self)) [''data'', ''cpk_list.cfg.bin'']))) (\<lambda>_.
        log_msg ''CHANGES APPLIED!! No mods selected.'' ''success'')))
       (\<lambda>d. log_msg (''Error applying changes: '' @ d) ''error'')"
  by (simp add: apply_mods_def paths_valid_def Let_def)

lemma apply_mods_with_mods:
  "\<not> viola_is_running e \<Longrightarrow> paths_valid e self \<Longrightarrow>
   get_enabled_mods (mod_entries self) \<noteq> [] \<Longrightarrow>
   apply_mods e self
   = io_bind (io_call (MakeDirs (path_abspath e (tmp_dir self))) (makedirs e (path_abspath e (tmp_dir self)))) (\<lambda>_.
       io_emit (ThreadStart (Job (strip (violacli_path self)) (strip (cfgbin_path self))
          (get_enabled_mods (mod_entries self)) (path_abspath e (tmp_dir self)) (strip (game_path self)))))"
  by (simp add: apply_mods_def paths_valid_def Let_def)


lemma apply_mods_no_thread_when_invalid:
  "\<not> paths_valid e self \<Longrightarrow> filter is_thread_start (fst (apply_mods e self)) = []"
  by (cases "viola_is_running e") (simp_all add: apply_mods_running apply_mods_invalid)

text \<open>
  C3, as stated: whenever a required path is missing or invalid the error is reported.
  It fails while a job is running: the request is turned away by the running guard
  with its own notice, before the paths are looked at, and no error is shown.
\<close>

theorem invalid_path_while_running_counterexample:
  "\<not> paths_valid (demo_env\<lparr>viola_is_running := True\<rparr>) (demo_window\<lparr>game_path := []\<rparr>)
   \<and> apply_mods (demo_env\<lparr>viola_is_running := True\<rparr>) (demo_window\<lparr>game_path := []\<rparr>)
     = ([ShowInfo ''Info'' ''A process is already running.''], Inr ())"
  by (simp add: apply_mods_running paths_valid_def strip_def demo_window_def)

text \<open>
  C3, amended: when a required path is empty, missing or invalid, an apply request made
  while no job is running does nothing but show the error box of the first failing
  check; one made while a job is running does nothing but show the notice of the
  running guard; in both cases no thread is started, and \<open>apply_mods\<close> assigns no
  attribute of the window.
\<close>

theorem invalid_path_refused:
  assumes "\<not> paths_valid e self"
  shows "(\<not> viola_is_running e \<longrightarrow>
            apply_mods e self
            = ([ShowError ''Error''
                 (if strip (game_path self) = [] \<or> \<not> path_isdir e (strip (game_path self))
                  then ''Invalid game path.''
                  else if strip (cfgbin_path self) = []
                          \<or> \<not> path_exists e (strip (cfgbin_path self))
                  then ''Invalid cpk_list.cfg.bin path.''
                  else ''violacli.exe not found. Please configure its path.'')], Inr ()))
         \<and> (viola_is_running e \<longrightarrow>
            apply_mods e self = ([ShowInfo ''Info'' ''A process is already running.''], Inr ()))
         \<and> filter is_thread_start (fst (apply_mods e self)) = []"
  using assms
  by (simp add: apply_mods_running apply_mods_invalid apply_mods_no_thread_when_invalid)

theorem invalid_path_refused_witness:
  "\<not> paths_valid demo_env (demo_window\<lparr>game_path := '' ''\<rparr>)
   \<and> apply_mods demo_env (demo_window\<lparr>game_path := '' ''\<rparr>)
     = ([ShowError ''Error'' ''Invalid game path.''], Inr ())
   \<and> \<not> paths_valid (demo_env\<lparr>path_exists := (\<lambda>p. p \<noteq> ''violacli.exe'')\<rparr>) demo_window
   \<and> apply_mods (demo_env\<lparr>path_exists := (\<lambda>p. p \<noteq> ''violacli.exe'')\<rparr>) demo_window
     = ([ShowError ''Error'' ''violacli.exe not found. Please configure its path.''], Inr ())
   \<and> apply_mods (demo_env\<lparr>viola_is_running := True\<rparr>) (demo_window\<lparr>cfgbin_path := []\<rparr>)
     = ([ShowInfo ''Info'' ''A process is already running.''], Inr ())"
proof -
  have 1: "\<not> paths_valid demo_env (demo_window\<lparr>game_path := '' ''\<rparr>)"
    by (simp add: paths_valid_def strip_def is_space_def demo_window_def)
  have 2: "\<not> paths_valid (demo_env\<lparr>path_exists := (\<lambda>p. p \<noteq> ''violacli.exe'')\<rparr>) demo_window"
    by (simp add: paths_valid_def strip_def is_space_def demo_window_def)
  have 3: "\<not> paths_valid (demo_env\<lparr>viola_is_running := True\<rparr>) (demo_window\<lparr>cfgbin_path := []\<rparr>)"
    by (simp add: paths_valid_def strip_def is_space_def demo_window_def)
  show ?thesis
    using 1 2 invalid_path_refused[OF 1] invalid_path_refused[OF 2] invalid_path_refused[OF 3]
    by (simp add: strip_def is_space_def demo_window_def demo_env_def)
qed

lemma apply_mods_no_mods_quiet:
  assumes "\<not> viola_is_running e" and "paths_valid e self"
    and "get_enabled_mods (mod_entries self) = []"
  shows "filter is_thread_start (fst (apply_mods e self)) = []
         \<and> filter is_viola_call (fst (apply_mods e self)) = []"
proof -
  let ?T = "path_join e (strip (game_path self)) [''data'', ''cpk_list.cfg.bin'']"
  let ?D = "path_dirname e ?T"
  let ?C = "strip (cfgbin_path self)"
  note eq = apply_mods_no_mods[OF assms]
  show ?thesis
  proof (cases "makedirs e ?D")
    case (Raises x)
    then show ?thesis by (cases x) (simp_all add: eq)
  next
    case (Returns u)
    note m = this
    show ?thesis
    proof (cases "copy2 e ?C ?T")
      case (Raises x)
      with m show ?thesis by (cases x) (simp_all add: eq)
    next
      case (Returns u')
      with m show ?thesis by (simp add: eq)
    qed
  qed
qed

text \<open>
  C10: an apply request that gets past the running guard and the path checks with no
  enabled mod starts no thread and makes no call to the merge tool; it creates the
  game's data directory and copies the base \<open>cpk_list.cfg.bin\<close> into it, then logs
  success; when creating the directory or copying raises an exception, it logs an
  error-level record with the description instead.
\<close>

theorem no_mods_copies_base_file:
  assumes "\<not> viola_is_running e" and "paths_valid e self"
    and "get_enabled_mods (mod_entries self) = []"
  shows "filter is_thread_start (fst (apply_mods e self)) = []
         \<and> filter is_viola_call (fst (apply_mods e self)) = []
         \<and> (makedirs e (path_dirname e (path_join e (strip (game_path self)) [''data'', ''cpk_list.cfg.bin''])) = Returns ()
            \<and> copy2 e (strip (cfgbin_path self)) (path_join e (strip (game_path self)) [''data'', ''cpk_list.cfg.bin'']) = Returns ()
            \<longrightarrow> apply_mods e self
                = ([MakeDirs (path_dirname e (path_join e (strip (game_path self)) [''data'', ''cpk_list.cfg.bin''])),
                    Copy2 (strip (cfgbin_path self)) (path_join e (strip (game_path self)) [''data'', ''cpk_list.cfg.bin'']),
                    Log ''CHANGES APPLIED!! No mods selected.'' ''success''], Inr ()))
         \<and> (makedirs e (path_dirname e (path_join e (strip (game_path self)) [''data'', ''cpk_list.cfg.bin''])) = Raises (PyException d)
            \<longrightarrow> apply_mods e self
                = ([MakeDirs (path_dirname e (path_join e (strip (game_path self)) [''data'', ''cpk_list.cfg.bin''])),
                    Log (''Error applying changes: '' @ d) ''error''], Inr ()))
         \<and> (makedirs e (path_dirname e (path_join e (strip (game_path self)) [''data'', ''cpk_list.cfg.bin''])) = Returns ()
            \<and> copy2 e (strip (cfgbin_path self)) (path_join e (strip (game_path self)) [''data'', ''cpk_list.cfg.bin'']) = Raises (PyException d)
            \<longrightarrow> apply_mods e self
                = ([MakeDirs (path_dirname e (path_join e (strip (game_path self)) [''data'', ''cpk_list.cfg.bin''])),
                    Copy2 (strip (cfgbin_path self)) (path_join e (strip (game_path self)) [''data'', ''cpk_list.cfg.bin'']),
                    Log (''Error applying changes: '' @ d) ''error''], Inr ()))"
proof -
  let ?T = "path_join e (strip (game_path self)) [''data'', ''cpk_list.cfg.bin'']"
  let ?D = "path_dirname e ?T"
  let ?C = "strip (cfgbin_path self)"
  note eq = apply_mods_no_mods[OF assms]
  note quiet = apply_mods_no_mods_quiet[OF assms]
  from quiet show ?thesis by (simp add: eq)
qed

theorem no_mods_copies_base_file_witness:
  "apply_mods demo_env (demo_window\<lparr>mod_entries := [mod_b]\<rparr>)
   = ([MakeDirs ''game/data'', Copy2 ''cpk_list.cfg.bin'' ''game/data/cpk_list.cfg.bin'',
       Log ''CHANGES APPLIED!! No mods selected.'' ''success''], Inr ())
   \<and> apply_mods (demo_env\<lparr>makedirs := (\<lambda>p. Raises (PyException ''read-only''))\<rparr>)
        (demo_window\<lparr>mod_entries := [mod_b]\<rparr>)
   = ([MakeDirs ''game/data'', Log ''Error applying changes: read-only'' ''error''], Inr ())
   \<and> apply_mods (demo_env\<lparr>copy2 := (\<lambda>p q. Raises (PyException ''denied''))\<rparr>)
        (demo_window\<lparr>mod_entries := [mod_b]\<rparr>)
   = ([MakeDirs ''game/data'', Copy2 ''cpk_list.cfg.bin'' ''game/data/cpk_list.cfg.bin'',
       Log ''Error applying changes: denied'' ''error''], Inr ())"
proof -
  let ?w = "demo_window\<lparr>mod_entries := [mod_b]\<rparr>"
  have v: "paths_valid e ?w" if "path_isdir e = (\<lambda>p. True)" "path_exists e = (\<lambda>p. True)" for e
    using that by (simp add: paths_valid_def strip_def is_space_def demo_window_def)
  have n: "get_enabled_mods (mod_entries ?w) = []"
    by (simp add: mod_b_def)
  have 1: "\<not> viola_is_running demo_env" "paths_valid demo_env ?w"
    by (simp_all add: v demo_env_def)
  have 2: "\<not> viola_is_running (demo_env\<lparr>makedirs := (\<lambda>p. Raises (PyException ''read-only''))\<rparr>)"
    "paths_valid (demo_env\<lparr>makedirs := (\<lambda>p. Raises (PyException ''read-only''))\<rparr>) ?w"
    by (simp_all add: v demo_env_def)
  have 3: "\<not> viola_is_running (demo_env\<lparr>copy2 := (\<lambda>p q. Raises (PyException ''denied''))\<rparr>)"
    "paths_valid (demo_env\<lparr>copy2 := (\<lambda>p q. Raises (PyException ''denied''))\<rparr>) ?w"
    by (simp_all add: v demo_env_def)
  show ?thesis
    using no_mods_copies_base_file[OF 1 n, of "''x''"]
      no_mods_copies_base_file[OF 2 n, of "''read-only''"]
      no_mods_copies_base_file[OF 3 n, of "''denied''"]
    by (simp add: strip_def is_space_def demo_window_def demo_env_def)
qed


subsection \<open>One job at a time\<close>

lemma started_apply_mods_running:
  "viola_is_running e \<Longrightarrow> started (fst (apply_mods e self)) = []"
  by (simp add: apply_mods_running)

lemma started_apply_mods_le: "length (started (fst (apply_mods e self))) \<le> 1"
proof (cases "viola_is_running e")
  case True
  then show ?thesis by (simp add: started_apply_mods_running)
next
  case False
  note idle = this
  show ?thesis
  proof (cases "paths_valid e self")
    case False
    with idle show ?thesis by (simp add: apply_mods_invalid)
  next
    case True
    note valid = this
    show ?thesis
    proof (cases "get_enabled_mods (mod_entries self) = []")
      case True
      have "filter is_thread_start t = [] \<Longrightarrow> started t = []" for t
        by (induction t rule: started.induct) simp_all
      with apply_mods_no_mods_quiet[OF idle valid True] show ?thesis by simp
    next
      case False
      show ?thesis
        by (cases "makedirs e (path_abspath e (tmp_dir self))")
           (simp_all add: apply_mods_with_mods[OF idle valid False])
    qed
  qed
qed

lemma step_rejected: "workers s \<noteq> [] \<Longrightarrow> step s (Apply e) = s"
  by (simp add: is_running_def started_apply_mods_running)

lemma step_keeps_one_worker:
  "length (workers s) \<le> Suc 0 \<Longrightarrow> length (workers (step s ev)) \<le> Suc 0"
proof (cases ev)
  case (Apply e)
  assume le: "length (workers s) \<le> Suc 0"
  show ?thesis
  proof (cases "workers s = []")
    case True
    with Apply show ?thesis
      using started_apply_mods_le[of "e\<lparr>viola_is_running := is_running []\<rparr>" "window s"] by simp
  next
    case False
    show ?thesis unfolding Apply step_rejected[OF False] by (rule le)
  qed
next
  case WorkerExit
  assume "length (workers s) \<le> Suc 0"
  with WorkerExit show ?thesis by simp
next
  case (Edit w)
  assume "length (workers s) \<le> Suc 0"
  with Edit show ?thesis by simp
qed

lemma run_keeps_one_worker:
  "length (workers s) \<le> Suc 0 \<Longrightarrow> length (workers (run s evs)) \<le> Suc 0"
  unfolding run_def
proof (induction evs arbitrary: s)
  case Nil
  then show ?case by simp
next
  case (Cons ev evs)
  from Cons.prems have "length (workers (step s ev)) \<le> Suc 0"
    by (rule step_keeps_one_worker)
  then have "length (workers (foldl step (step s ev) evs)) \<le> Suc 0"
    by (rule Cons.IH)
  then show ?case by simp
qed

text \<open>
  C2: starting with at most one job in flight, after any sequence of apply requests,
  finished jobs and other user actions at most one job is in flight; an apply request
  that arrives while a job is in flight shows the notice, starts no thread and leaves
  the system as it was, so that what follows is the same as if the request had never
  been made: it is not kept for later.
\<close>

theorem one_worker_at_a_time:
  "(length (workers s) \<le> 1 \<longrightarrow> length (workers (run s evs)) \<le> 1)
   \<and> (workers s \<noteq> [] \<longrightarrow>
        apply_mods (e\<lparr>viola_is_running := is_running (workers s)\<rparr>) (window s)
          = ([ShowInfo ''Info'' ''A process is already running.''], Inr ())
        \<and> step s (Apply e) = s
        \<and> run s (Apply e # evs) = run s evs)"
proof -
  have 1: "length (workers s) \<le> 1 \<longrightarrow> length (workers (run s evs)) \<le> 1"
    using run_keeps_one_worker[of s evs] by simp
  have 2: "apply_mods (e\<lparr>viola_is_running := is_running (workers s)\<rparr>) (window s)
          = ([ShowInfo ''Info'' ''A process is already running.''], Inr ())"
    if "workers s \<noteq> []"
    using that by (simp add: apply_mods_running is_running_def)
  have 3: "run s (Apply e # evs) = run s evs" if "workers s \<noteq> []"
    unfolding run_def foldl_Cons step_rejected[OF that] ..
  from 1 2 3 show ?thesis by (simp add: step_rejected del: step.simps)
qed

theorem one_worker_at_a_time_witness:
  "workers (run \<lparr>window = demo_window, workers = []\<rparr> [Apply demo_env, Apply demo_env])
     = [Job ''violacli.exe'' ''cpk_list.cfg.bin'' [''mods/A'', ''mods/C''] ''/tmp'' ''game'']
   \<and> step \<lparr>window = demo_window, workers = [Job ''violacli.exe'' ''cpk_list.cfg.bin'' [''mods/A''] ''/tmp'' ''game'']\<rparr>
        (Apply demo_env)
     = \<lparr>window = demo_window, workers = [Job ''violacli.exe'' ''cpk_list.cfg.bin'' [''mods/A''] ''/tmp'' ''game'']\<rparr>"
  using one_worker_at_a_time[of "\<lparr>window = demo_window, workers = []\<rparr>" "[Apply demo_env, Apply demo_env]" demo_env]
    one_worker_at_a_time[of "\<lparr>window = demo_window, workers = [Job ''violacli.exe'' ''cpk_list.cfg.bin'' [''mods/A''] ''/tmp'' ''game'']\<rparr>" "[]" demo_env]
  by (simp add: run_def is_running_def apply_mods_def Let_def strip_def is_space_def
      demo_window_def demo_env_def mod_a_def mod_b_def mod_c_def)

end
